theory Spec2Isabelle
  imports Main
begin

section \<open>Exit codes of the Blaze client (blaze\_exit\_code.h)\<close>

text \<open>
  The header declares one unscoped enumeration in namespace \<open>blaze_exit_code\<close>:
  \<^verbatim>\<open>
  enum ExitCodes {
    SUCCESS = 0,
    BAD_ARGV = 2,
    LOCAL_ENVIRONMENTAL_ERROR = 36,
    INTERNAL_ERROR = 37,
  };
  \<close>
  The enumerators are the constructors of a datatype, in the order of the declaration.
  The integer an enumerator stands for (what C++ yields when an \<open>ExitCodes\<close> is
  converted to \<open>int\<close>, for instance as the argument of \<open>exit\<close>) is a function on
  that datatype, one equation per line of the declaration.
\<close>

datatype ExitCodes =
    SUCCESS
  | BAD_ARGV
  | LOCAL_ENVIRONMENTAL_ERROR
  | INTERNAL_ERROR

fun ExitCodes_value :: "ExitCodes \<Rightarrow> int" where
  "ExitCodes_value SUCCESS = 0"
| "ExitCodes_value BAD_ARGV = 2"
| "ExitCodes_value LOCAL_ENVIRONMENTAL_ERROR = 36"
| "ExitCodes_value INTERNAL_ERROR = 37"

text \<open>The enumerators in the order the header declares them.\<close>

definition ExitCodes_enumerators :: "ExitCodes list" where
  "ExitCodes_enumerators = [SUCCESS, BAD_ARGV, LOCAL_ENVIRONMENTAL_ERROR, INTERNAL_ERROR]"

section \<open>Selecting the final exit code\<close>

text \<open>
  Modelled from the spec: \<open>select_final\<close>, the rule that picks the exit code of a run
  from the outcomes its subsystems reported, is missing from the header, which declares
  the enumeration and nothing else. The model follows sections 4.1 and 9 of the
  specification: the precedence is strict, a user-actionable error (bad arguments) is
  above an environment failure, and an environment failure is above the internal,
  last-resort failure, which is reported only when nothing more specific was.
  The specification ranks the three failure categories only. It neither places
  success nor says what an empty sequence of candidates yields: here success is below
  every failure, and the empty sequence yields \<open>None\<close>.
\<close>

fun precedence :: "ExitCodes \<Rightarrow> nat" where
  "precedence BAD_ARGV = 3"
| "precedence LOCAL_ENVIRONMENTAL_ERROR = 2"
| "precedence INTERNAL_ERROR = 1"
| "precedence SUCCESS = 0"

text \<open>
  Modelled from the spec: one step of the missing selection. The code chosen so far
  is kept unless the next reported one is strictly above it in the precedence.
\<close>

definition take_precedence :: "ExitCodes \<Rightarrow> ExitCodes \<Rightarrow> ExitCodes" where
  "take_precedence chosen reported =
     (if precedence chosen < precedence reported then reported else chosen)"

text \<open>
  Modelled from the spec: the missing \<open>select_final\<close> itself, run over the candidates
  in the order they were reported.
\<close>

fun select_final :: "ExitCodes list \<Rightarrow> ExitCodes option" where
  "select_final [] = None"
| "select_final (c # cs) = Some (foldl take_precedence c cs)"

section \<open>Facts about the enumeration\<close>

lemma ExitCodes_UNIV:
  "(UNIV :: ExitCodes set) = {SUCCESS, BAD_ARGV, LOCAL_ENVIRONMENTAL_ERROR, INTERNAL_ERROR}"
proof
  show "UNIV \<subseteq> {SUCCESS, BAD_ARGV, LOCAL_ENVIRONMENTAL_ERROR, INTERNAL_ERROR}"
  proof
    fix c :: ExitCodes
    show "c \<in> {SUCCESS, BAD_ARGV, LOCAL_ENVIRONMENTAL_ERROR, INTERNAL_ERROR}"
      by (cases c) simp_all
  qed
qed simp

lemma ExitCodes_enumerators_complete: "set ExitCodes_enumerators = UNIV"
  by (simp add: ExitCodes_enumerators_def ExitCodes_UNIV)

lemma ExitCodes_enumerators_distinct: "distinct ExitCodes_enumerators"
  by (simp add: ExitCodes_enumerators_def)

lemma ExitCodes_value_range: "range ExitCodes_value = {0, 2, 36, 37}"
  by (simp add: ExitCodes_UNIV)

lemma ExitCodes_value_inj: "inj ExitCodes_value"
proof (rule injI)
  fix a b :: ExitCodes
  assume "ExitCodes_value a = ExitCodes_value b"
  then show "a = b"
    by (cases a; cases b) simp_all
qed

text \<open>
  C1. The enumeration binds the values of the external-interface table: success is 0,
  the command-line problem (bad or illegal flags or command combination, bad
  environment variables) is 2, the local environmental error is 36 and the
  unexpected termination is 37.
\<close>

theorem ExitCodes_table_values:
  "ExitCodes_value SUCCESS = 0 \<and>
   ExitCodes_value BAD_ARGV = 2 \<and>
   ExitCodes_value LOCAL_ENVIRONMENTAL_ERROR = 36 \<and>
   ExitCodes_value INTERNAL_ERROR = 37"
  by simp

text \<open>
  C2. The success enumerator has value 0, and every other enumerator has a value
  different from 0: exactly one category denotes success.
\<close>

theorem success_is_the_only_zero:
  "ExitCodes_value SUCCESS = 0 \<and> (c \<noteq> SUCCESS \<longrightarrow> ExitCodes_value c \<noteq> 0)"
  by (cases c) simp_all

theorem success_is_the_only_zero_witness:
  "INTERNAL_ERROR \<noteq> SUCCESS \<and> ExitCodes_value INTERNAL_ERROR \<noteq> 0"
proof -
  have distinct_names: "INTERNAL_ERROR \<noteq> SUCCESS"
    by simp
  from success_is_the_only_zero [of INTERNAL_ERROR]
  have "INTERNAL_ERROR \<noteq> SUCCESS \<longrightarrow> ExitCodes_value INTERNAL_ERROR \<noteq> 0"
    by (rule conjunct2)
  with distinct_names have "ExitCodes_value INTERNAL_ERROR \<noteq> 0"
    by (rule rev_mp)
  with distinct_names show ?thesis
    by (rule conjI)
qed

text \<open>
  C3. Two distinct enumerators never have the same value: no exit code is bound to
  two category names.
\<close>

theorem distinct_categories_distinct_values:
  "a \<noteq> b \<Longrightarrow> ExitCodes_value a \<noteq> ExitCodes_value b"
  by (cases a; cases b) simp_all

theorem distinct_categories_distinct_values_witness:
  "LOCAL_ENVIRONMENTAL_ERROR \<noteq> INTERNAL_ERROR \<and>
   ExitCodes_value LOCAL_ENVIRONMENTAL_ERROR \<noteq> ExitCodes_value INTERNAL_ERROR"
proof -
  have distinct_names: "LOCAL_ENVIRONMENTAL_ERROR \<noteq> INTERNAL_ERROR"
    by simp
  from distinct_names
  have "ExitCodes_value LOCAL_ENVIRONMENTAL_ERROR \<noteq> ExitCodes_value INTERNAL_ERROR"
    by (rule distinct_categories_distinct_values)
  with distinct_names show ?thesis
    by (rule conjI)
qed

text \<open>
  C4. Every value of the enumeration lies in the range 0 to 255 of a process exit
  status.
\<close>

theorem ExitCodes_value_in_exit_status_range:
  "0 \<le> ExitCodes_value c \<and> ExitCodes_value c \<le> 255"
  by (cases c) simp_all

text \<open>
  C10. The enumeration is closed: it has exactly four enumerators, their values are
  exactly 0, 2, 36 and 37, and so neither 1 nor any value from 3 to 35 or from 38 to
  255 is the value of an enumerator.
\<close>

theorem ExitCodes_closed_value_set:
  "length ExitCodes_enumerators = 4 \<and>
   distinct ExitCodes_enumerators \<and>
   set ExitCodes_enumerators = UNIV \<and>
   ExitCodes_value ` set ExitCodes_enumerators = {0, 2, 36, 37} \<and>
   1 \<notin> range ExitCodes_value \<and>
   range ExitCodes_value \<inter> ({3..35} \<union> {38..255}) = {}"
  by (simp add: ExitCodes_enumerators_def ExitCodes_UNIV)

section \<open>Facts about the selection\<close>

lemma precedence_inj: "precedence a = precedence b \<Longrightarrow> a = b"
  by (cases a; cases b) simp_all

lemma foldl_take_precedence_mem: "foldl take_precedence c cs \<in> set (c # cs)"
  by (induction cs arbitrary: c) (auto simp: take_precedence_def)

lemma foldl_take_precedence_start:
  "precedence c \<le> precedence (foldl take_precedence c cs)"
proof (induction cs arbitrary: c)
  case Nil
  show ?case by simp
next
  case (Cons x xs)
  have "precedence c \<le> precedence (take_precedence c x)"
    by (simp add: take_precedence_def)
  also have "\<dots> \<le> precedence (foldl take_precedence (take_precedence c x) xs)"
    by (rule Cons.IH)
  finally show ?case by simp
qed

lemma foldl_take_precedence_max:
  "x \<in> set (c # cs) \<Longrightarrow> precedence x \<le> precedence (foldl take_precedence c cs)"
proof (induction cs arbitrary: c)
  case Nil
  then show ?case by simp
next
  case (Cons y ys)
  show ?case
  proof (cases "x \<in> set (take_precedence c y # ys)")
    case True
    then show ?thesis using Cons.IH [of "take_precedence c y"] by simp
  next
    case False
    with Cons.prems have "x = c \<or> x = y" by auto
    then have "precedence x \<le> precedence (take_precedence c y)"
      by (auto simp: take_precedence_def)
    also have "\<dots> \<le> precedence (foldl take_precedence (take_precedence c y) ys)"
      by (rule foldl_take_precedence_start)
    finally show ?thesis by simp
  qed
qed

text \<open>
  The selected code is a candidate of the highest precedence, so it depends on which
  categories were reported and not on the order of the reports.
\<close>

lemma select_final_set:
  assumes "set xs = set ys"
  shows "select_final xs = select_final ys"
proof (cases xs)
  case Nil
  with assms show ?thesis by simp
next
  case (Cons c cs)
  with assms obtain d ds where ys: "ys = d # ds"
    by (cases ys) auto
  let ?r = "foldl take_precedence c cs" and ?s = "foldl take_precedence d ds"
  have "?r \<in> set xs"
    unfolding Cons by (rule foldl_take_precedence_mem)
  with assms have "?r \<in> set ys" by simp
  then have rs: "precedence ?r \<le> precedence ?s"
    unfolding ys by (rule foldl_take_precedence_max)
  have "?s \<in> set ys"
    unfolding ys by (rule foldl_take_precedence_mem)
  with assms have "?s \<in> set xs" by simp
  then have sr: "precedence ?s \<le> precedence ?r"
    unfolding Cons by (rule foldl_take_precedence_max)
  from rs sr have "?r = ?s"
    by (intro precedence_inj) simp
  then show ?thesis by (simp add: Cons ys)
qed

text \<open>
  C5. For the candidates user error, then internal crash, reported in that order, the
  selected code is the user error, 2, and not the internal crash, 37.
\<close>

theorem select_final_user_error_before_crash:
  "select_final [BAD_ARGV, INTERNAL_ERROR] = Some BAD_ARGV \<and>
   map_option ExitCodes_value (select_final [BAD_ARGV, INTERNAL_ERROR]) = Some 2 \<and>
   map_option ExitCodes_value (select_final [BAD_ARGV, INTERNAL_ERROR]) \<noteq> Some 37"
  by (simp add: take_precedence_def)

text \<open>
  C6. For the internal crash alone, with no earlier more specific failure, the
  selected code is the internal crash, 37.
\<close>

theorem select_final_crash_alone:
  "select_final [INTERNAL_ERROR] = Some INTERNAL_ERROR \<and>
   map_option ExitCodes_value (select_final [INTERNAL_ERROR]) = Some 37"
  by simp

text \<open>
  C9. For the candidates environment failure and user error, the selected code is the
  user error, 2, in whichever of the two orders they are reported.
\<close>

theorem select_final_environment_and_user_error:
  "map_option ExitCodes_value (select_final [LOCAL_ENVIRONMENTAL_ERROR, BAD_ARGV]) = Some 2 \<and>
   map_option ExitCodes_value (select_final [BAD_ARGV, LOCAL_ENVIRONMENTAL_ERROR]) = Some 2"
  by (simp add: take_precedence_def)

end
